theory Spec2Isabelle
  imports Complex_Main "HOL-Library.Sublist"
begin

section \<open>Pipeline stage mapper (components/pipeline/TaskPipeline.tsx)\<close>

text \<open>
  \<^verbatim>\<open>TaskStatus\<close> of types/neuron.ts is a closed union of seven string literals; it
  becomes a datatype with one constructor per literal.
\<close>

datatype TaskStatus =
  Received | Analyzing | Implementing | Patching | Verifying | Completed | TaskFailed

text \<open>The lucide icons a stage refers to; only their identity matters here.\<close>

datatype Icon = Inbox | Search | Code | FileEdit | ShieldCheck | CheckCircle

record Stage =
  stage_status :: TaskStatus
  stage_label :: string
  stage_icon :: Icon

definition stages :: "Stage list" where
  "stages =
    [ \<lparr>stage_status = Received, stage_label = ''Received'', stage_icon = Inbox\<rparr>,
      \<lparr>stage_status = Analyzing, stage_label = ''Analyzing'', stage_icon = Search\<rparr>,
      \<lparr>stage_status = Implementing, stage_label = ''Implementing'', stage_icon = Code\<rparr>,
      \<lparr>stage_status = Patching, stage_label = ''Patching'', stage_icon = FileEdit\<rparr>,
      \<lparr>stage_status = Verifying, stage_label = ''Verifying'', stage_icon = ShieldCheck\<rparr>,
      \<lparr>stage_status = Completed, stage_label = ''Completed'', stage_icon = CheckCircle\<rparr> ]"

text \<open>
  \<^verbatim>\<open>Array.prototype.findIndex\<close>: the index of the first element that satisfies the
  predicate, scanning from the left, and \<open>-1\<close> when no element does. The scan carries
  the running index.
\<close>

fun findIndexFrom :: "int \<Rightarrow> ('a \<Rightarrow> bool) \<Rightarrow> 'a list \<Rightarrow> int" where
  "findIndexFrom k P [] = - 1"
| "findIndexFrom k P (x # xs) = (if P x then k else findIndexFrom (k + 1) P xs)"

definition findIndex :: "('a \<Rightarrow> bool) \<Rightarrow> 'a list \<Rightarrow> int" where
  "findIndex P xs = findIndexFrom 0 P xs"

text \<open>
  \<^verbatim>\<open>const stageIndex = (status) => {
    if (status === 'failed') return -1;
    return stages.findIndex(s => s.status === status); }\<close>
\<close>

definition stageIndex :: "TaskStatus \<Rightarrow> int" where
  "stageIndex status =
     (if status = TaskFailed then - 1
      else findIndex (\<lambda>s. stage_status s = status) stages)"

text \<open>
  The width of the progress line, in percent:
  \<^verbatim>\<open>Math.max(0, (currentStage / (stages.length - 1)) * 100)\<close>.
  JavaScript numbers are modelled by exact real arithmetic.
\<close>

definition progressFill :: "int \<Rightarrow> real" where
  "progressFill currentStage =
     max 0 (real_of_int currentStage / real_of_int (int (length stages) - 1) * 100)"

section \<open>Agent controls (context/NeuronContext.tsx)\<close>

datatype AgentStatus = Idle | Working | Waiting | Failed

datatype AgentType = Architect | Backend | Frontend | Reviewer | Patcher | Verifier

text \<open>The interface \<^verbatim>\<open>Agent\<close> of types/neuron.ts.\<close>

record Agent =
  agent_id :: string
  agent_name :: string
  agent_type :: AgentType
  status :: AgentStatus
  currentAction :: string
  lastResponseTime :: real
  tokenUsage :: int
  enabled :: bool

definition mockAgents :: "Agent list" where
  "mockAgents =
    [ \<lparr>agent_id = ''1'', agent_name = ''Architect'', agent_type = Architect, status = Idle,
        currentAction = ''Awaiting instructions'', lastResponseTime = 0, tokenUsage = 0,
        enabled = True\<rparr>,
      \<lparr>agent_id = ''2'', agent_name = ''Backend Agent'', agent_type = Backend,
        status = Working,
        currentAction = ''Generating API endpoints for user authentication'',
        lastResponseTime = 1.2, tokenUsage = 4521, enabled = True\<rparr>,
      \<lparr>agent_id = ''3'', agent_name = ''Frontend Agent'', agent_type = Frontend,
        status = Waiting, currentAction = ''Waiting for backend schema'',
        lastResponseTime = 0.8, tokenUsage = 2103, enabled = True\<rparr>,
      \<lparr>agent_id = ''4'', agent_name = ''Code Reviewer'', agent_type = Reviewer,
        status = Idle, currentAction = ''Queue empty'', lastResponseTime = 0,
        tokenUsage = 0, enabled = True\<rparr>,
      \<lparr>agent_id = ''5'', agent_name = ''File Patcher'', agent_type = Patcher,
        status = Working, currentAction = ''Applying changes to src/api/auth.ts'',
        lastResponseTime = 0.3, tokenUsage = 892, enabled = True\<rparr>,
      \<lparr>agent_id = ''6'', agent_name = ''Verifier'', agent_type = Verifier, status = Idle,
        currentAction = ''Awaiting patches'', lastResponseTime = 0, tokenUsage = 0,
        enabled = True\<rparr> ]"

text \<open>
  The two setters replace the agents state by the image of the previous state under
  \<^verbatim>\<open>prev.map(...)\<close>; each is modelled as the function from the previous list to the
  next one. Neither body contains anything but the call of \<^verbatim>\<open>setAgents\<close>.

  \<^verbatim>\<open>agent.id === agentId ? { ...agent, enabled: !agent.enabled } : agent\<close>
\<close>

definition toggleAgentEnabled :: "string \<Rightarrow> Agent list \<Rightarrow> Agent list" where
  "toggleAgentEnabled agentId prev =
     map (\<lambda>agent. if agent_id agent = agentId
                   then agent\<lparr>enabled := \<not> enabled agent\<rparr>
                   else agent) prev"

text \<open>
  \<^verbatim>\<open>agent.id === agentId && agent.status === 'failed'
    ? { ...agent, status: 'working', currentAction: 'Retrying...' } : agent\<close>
\<close>

definition retryAgent :: "string \<Rightarrow> Agent list \<Rightarrow> Agent list" where
  "retryAgent agentId prev =
     map (\<lambda>agent. if agent_id agent = agentId \<and> status agent = Failed
                   then agent\<lparr>status := Working, currentAction := ''Retrying...''\<rparr>
                   else agent) prev"

text \<open>A list with a failed agent, as a poll or a later edit of the mock data may hold.\<close>

definition agentsWithFailure :: "Agent list" where
  "agentsWithFailure =
    [ \<lparr>agent_id = ''1'', agent_name = ''Architect'', agent_type = Architect, status = Idle,
        currentAction = ''Awaiting instructions'', lastResponseTime = 0, tokenUsage = 0,
        enabled = True\<rparr>,
      \<lparr>agent_id = ''6'', agent_name = ''Verifier'', agent_type = Verifier,
        status = Failed, currentAction = ''Type check failed'', lastResponseTime = 0.5,
        tokenUsage = 310, enabled = False\<rparr>,
      \<lparr>agent_id = ''5'', agent_name = ''File Patcher'', agent_type = Patcher,
        status = Failed, currentAction = ''Patch rejected'', lastResponseTime = 0.3,
        tokenUsage = 892, enabled = True\<rparr> ]"

section \<open>JSON values\<close>

text \<open>
  Values that the dashboard only passes through or tests for truthiness keep their
  JavaScript shape. \<open>JUndefined\<close> stands for a property that is absent.
\<close>

datatype json =
  JUndefined | JNull | JBool bool | JNum real | JStr string
  | JArr "json list" | JObj "(string \<times> json) list"

fun truthy :: "json \<Rightarrow> bool" where
  "truthy JUndefined = False"
| "truthy JNull = False"
| "truthy (JBool b) = b"
| "truthy (JNum n) = (n \<noteq> 0)"
| "truthy (JStr s) = (s \<noteq> [])"
| "truthy (JArr xs) = True"
| "truthy (JObj kvs) = True"

text \<open>The operator \<^verbatim>\<open>a || b\<close> on such values.\<close>

definition orElse :: "json \<Rightarrow> json \<Rightarrow> json" where
  "orElse a b = (if truthy a then a else b)"

section \<open>Log panel (pages/Logs.tsx)\<close>

datatype LogSeverity = Info | Warning | Error | Debug

text \<open>The interface \<^verbatim>\<open>LogEntry\<close>; the timestamp is the Date's epoch milliseconds.\<close>

record LogEntry =
  log_id :: string
  log_timestamp :: int
  severity :: LogSeverity
  log_agent :: "string option"
  message :: string
  log_context :: "(string \<times> json) list option"

text \<open>The filter state has type \<^verbatim>\<open>LogSeverity | 'all'\<close>.\<close>

datatype LogFilter = FilterAll | FilterSeverity LogSeverity

text \<open>
  \<^verbatim>\<open>const filteredLogs = filter === 'all' ? logs : logs.filter(l => l.severity === filter);\<close>
\<close>

definition filteredLogs :: "LogFilter \<Rightarrow> LogEntry list \<Rightarrow> LogEntry list" where
  "filteredLogs flt logs =
     (if flt = FilterAll then logs
      else filter (\<lambda>l. FilterSeverity (severity l) = flt) logs)"

section \<open>Remote state fetcher (App.jsx)\<close>

text \<open>
  One entry of the \<^verbatim>\<open>features\<close> array of the \<^verbatim>\<open>/dashboard-state\<close> response. The
  code guards \<^verbatim>\<open>files\<close> and \<^verbatim>\<open>timestamp\<close> against absence, so they are optional.
\<close>

record Feature =
  feature :: string
  files :: "string list option"
  timestamp :: "string option"

text \<open>The display record built for each feature.\<close>

record Activity =
  act_id :: nat
  request :: string
  act_status :: string
  filesChanged :: nat
  duration :: string
  act_timestamp :: string
  act_agents :: "string list"
  act_files :: "string list"
  safetyChecks :: "string list"

text \<open>
  The callback of \<^verbatim>\<open>stateData.features.map((f, i) => ({...}))\<close>.
  \<^verbatim>\<open>f.files?.length || 0\<close> is the length of the array, and 0 when \<^verbatim>\<open>files\<close> is absent
  (for an empty array \<^verbatim>\<open>0 || 0\<close> is 0 as well);
  \<^verbatim>\<open>f.timestamp || "Just now"\<close> replaces an absent or empty timestamp.
\<close>

definition toActivity :: "nat \<Rightarrow> Feature \<Rightarrow> Activity" where
  "toActivity i f =
     \<lparr> act_id = i,
       request = feature f,
       act_status = ''success'',
       filesChanged = (case files f of None \<Rightarrow> 0 | Some fl \<Rightarrow> length fl),
       duration = ''N/A'',
       act_timestamp =
         (case timestamp f of None \<Rightarrow> ''Just now''
          | Some t \<Rightarrow> if t = [] then ''Just now'' else t),
       act_agents = [''Orchestrator''],
       act_files = (case files f of None \<Rightarrow> [] | Some fl \<Rightarrow> fl),
       safetyChecks = [''Verified''] \<rparr>"

text \<open>
  \<^verbatim>\<open>const activities = stateData.features ? stateData.features.map(...).reverse() : [];\<close>
  An array is truthy even when empty; \<open>None\<close> is the absent (or null) property.
\<close>

definition buildActivities :: "Feature list option \<Rightarrow> Activity list" where
  "buildActivities fs =
     (case fs of
        None \<Rightarrow> []
      | Some features \<Rightarrow> rev (map (\<lambda>(i, f). toActivity i f) (enumerate 0 features)))"

text \<open>
  The parsed bodies of the three JSON responses, with the fields the code reads.
\<close>

record StateData =
  sd_status :: json
  has_project :: json
  sd_project :: json
  sd_features :: "Feature list option"
  sd_metrics :: json

record AgentsData =
  ad_agents :: json

record ProjectsData =
  pd_data :: json

text \<open>
  What one \<^verbatim>\<open>fetch\<close> gives: the promise rejects (no connection), or it resolves to a
  response with its \<^verbatim>\<open>ok\<close> flag and a body; the body is \<open>None\<close> when
  \<^verbatim>\<open>res.json()\<close> rejects because the body is not JSON.
\<close>

datatype 'a Fetched = Rejected | Resolved bool "'a option"

record Poll =
  stateRes :: "StateData Fetched"
  agentsRes :: "AgentsData Fetched"
  projectsRes :: "ProjectsData Fetched"
  healthRes :: "unit Fetched"

text \<open>
  \<^verbatim>\<open>fetch(`${API_BASE_URL}/health`).catch(() => ({ ok: false }))\<close> followed by the read
  of \<^verbatim>\<open>healthRes.ok\<close>: a rejected health request counts as a response that is not ok.
\<close>

definition healthOk :: "unit Fetched \<Rightarrow> bool" where
  "healthOk h = (case h of Rejected \<Rightarrow> False | Resolved ok b \<Rightarrow> ok)"

text \<open>The view model held in the state variable \<^verbatim>\<open>data\<close>, and its initial value.\<close>

record Data =
  hasProject :: json
  project :: json
  projects :: json
  metrics :: json
  activities :: "Activity list"
  agents :: json
  systemStatus :: string
  lastAction :: string

definition initialData :: Data where
  "initialData =
     \<lparr> hasProject = JBool False,
       project = JNull,
       projects = JArr [],
       metrics = JObj [(''tokensUsed'', JNum 0), (''apiCalls'', JNum 0),
                       (''estimatedCost'', JNum 0), (''avgTaskTime'', JNum 0),
                       (''agentFailureRate'', JNum 0)],
       activities = [],
       agents = JArr [],
       systemStatus = ''offline'',
       lastAction = ''Never'' \<rparr>"

datatype FetchError = NetworkError | JsonError

text \<open>
  \<^verbatim>\<open>await Promise.all([...])\<close>: it rejects when one of the first three requests
  rejects; the health request cannot reject, because of its own \<^verbatim>\<open>catch\<close>.
\<close>

definition awaitAll ::
  "Poll \<Rightarrow> FetchError + (StateData option \<times> AgentsData option \<times> ProjectsData option)" where
  "awaitAll poll =
     (case stateRes poll of
        Rejected \<Rightarrow> Inl NetworkError
      | Resolved ok1 stateBody \<Rightarrow>
     (case agentsRes poll of
        Rejected \<Rightarrow> Inl NetworkError
      | Resolved ok2 agentsBody \<Rightarrow>
     (case projectsRes poll of
        Rejected \<Rightarrow> Inl NetworkError
      | Resolved ok3 projectsBody \<Rightarrow> Inr (stateBody, agentsBody, projectsBody))))"

text \<open>
  The updater passed to \<^verbatim>\<open>setData\<close>, applied to the previous view model.
\<close>

definition applyPoll ::
  "StateData \<Rightarrow> AgentsData \<Rightarrow> ProjectsData \<Rightarrow> unit Fetched \<Rightarrow> Data \<Rightarrow> Data" where
  "applyPoll stateData agentsData projectsData health prev =
     (let acts = buildActivities (sd_features stateData) in
      prev\<lparr> hasProject := has_project stateData,
            project := sd_project stateData,
            projects := orElse (pd_data projectsData) (JArr []),
            metrics := orElse (sd_metrics stateData) (metrics prev),
            activities := acts,
            agents := orElse (ad_agents agentsData) (agents prev),
            systemStatus := (if healthOk health then ''online'' else ''offline''),
            lastAction := (case acts of [] \<Rightarrow> ''Never'' | a # rest \<Rightarrow> act_timestamp a) \<rparr>)"

text \<open>
  The body of the \<^verbatim>\<open>try\<close> block of \<^verbatim>\<open>fetchState\<close>, as a function from the
  previous view model to an error or the next view model. The three bodies are parsed in
  the order of the source; when the status is not \<^verbatim>\<open>'success'\<close> no update is issued.
\<close>

definition fetchStateTry :: "Poll \<Rightarrow> Data \<Rightarrow> FetchError + Data" where
  "fetchStateTry poll prev =
     (case awaitAll poll of
        Inl e \<Rightarrow> Inl e
      | Inr (stateBody, agentsBody, projectsBody) \<Rightarrow>
     (case stateBody of
        None \<Rightarrow> Inl JsonError
      | Some stateData \<Rightarrow>
     (case agentsBody of
        None \<Rightarrow> Inl JsonError
      | Some agentsData \<Rightarrow>
     (case projectsBody of
        None \<Rightarrow> Inl JsonError
      | Some projectsData \<Rightarrow>
          if sd_status stateData = JStr ''success''
          then Inr (applyPoll stateData agentsData projectsData (healthRes poll) prev)
          else Inr prev))))"

text \<open>
  \<^verbatim>\<open>fetchState\<close> with its \<^verbatim>\<open>catch\<close> block, which issues no update of \<^verbatim>\<open>data\<close>.
  The calls of \<^verbatim>\<open>setLoading\<close> and \<^verbatim>\<open>setError\<close> come after the update has been issued
  and concern no field of \<^verbatim>\<open>data\<close> (the file declares neither identifier); they are not
  part of this function.
\<close>

definition fetchState :: "Poll \<Rightarrow> Data \<Rightarrow> Data" where
  "fetchState poll prev =
     (case fetchStateTry poll prev of Inl e \<Rightarrow> prev | Inr next \<Rightarrow> next)"

text \<open>
  A request has failed when its promise rejects or its body cannot be parsed; the health
  request has failed when it rejects or its response is not ok.
\<close>

definition requestFailed :: "'a Fetched \<Rightarrow> bool" where
  "requestFailed r = (case r of Rejected \<Rightarrow> True | Resolved ok b \<Rightarrow> b = None)"

text \<open>Example responses: the scenario of one feature with two files.\<close>

definition exampleState :: StateData where
  "exampleState =
     \<lparr> sd_status = JStr ''success'',
       has_project = JBool True,
       sd_project = JObj [(''name'', JStr ''demo''), (''path'', JStr ''/srv/demo'')],
       sd_features =
         Some [\<lparr>feature = ''Add auth'', files = Some [''a.ts'', ''b.ts''],
                timestamp = Some ''2m ago''\<rparr>],
       sd_metrics = JObj [(''tokensUsed'', JNum 120), (''apiCalls'', JNum 3)] \<rparr>"

definition exampleAgents :: AgentsData where
  "exampleAgents =
     \<lparr> ad_agents = JArr [JObj [(''name'', JStr ''Orchestrator''), (''status'', JStr ''idle''),
                             (''currentAction'', JStr ''Waiting'')]] \<rparr>"

definition exampleProjects :: ProjectsData where
  "exampleProjects =
     \<lparr> pd_data = JArr [JObj [(''path'', JStr ''/srv/demo''), (''name'', JStr ''demo'')]] \<rparr>"

definition pollAllUp :: Poll where
  "pollAllUp =
     \<lparr> stateRes = Resolved True (Some exampleState),
       agentsRes = Resolved True (Some exampleAgents),
       projectsRes = Resolved True (Some exampleProjects),
       healthRes = Resolved True None \<rparr>"

definition pollHealthDown :: Poll where
  "pollHealthDown = pollAllUp\<lparr>healthRes := Rejected\<rparr>"

section \<open>Login handlers of the test project (controllers/authController.js)\<close>

text \<open>
  A document of the mongoose model \<^verbatim>\<open>User\<close>: its \<^verbatim>\<open>_id\<close>, its email and its stored
  password hash.
\<close>

record User =
  user_id :: string
  user_email :: string
  user_password :: string

text \<open>An awaited call either throws (its promise rejects) or returns a value.\<close>

datatype 'a Outcome = Throws | Returns 'a

text \<open>
  The collaborators of the handlers, which are not code of the handlers themselves:
  \<^verbatim>\<open>User.findOne({ email })\<close> (a database round trip),
  \<^verbatim>\<open>user.comparePassword(password)\<close> (that is \<^verbatim>\<open>bcrypt.compare(password, this.password)\<close>),
  and \<^verbatim>\<open>jwt.sign(payload, process.env.JWT_SECRET, { expiresIn: '1h' })\<close>.
\<close>

record LoginEnv =
  findOne :: "string option \<Rightarrow> User option Outcome"
  comparePassword :: "User \<Rightarrow> string option \<Rightarrow> bool Outcome"
  jwt_sign :: "(string \<times> string) list \<Rightarrow> string Outcome"

text \<open>The two fields read from \<^verbatim>\<open>req.body\<close>; \<open>None\<close> is an absent field.\<close>

record LoginBody =
  email :: "string option"
  password :: "string option"

datatype ResponseBody =
  Message string
  | TokenAndUser string string string

record Response =
  http_status :: nat
  body :: ResponseBody

text \<open>\<^verbatim>\<open>!email\<close> on an optional string: absent or empty.\<close>

definition missing :: "string option \<Rightarrow> bool" where
  "missing s = (case s of None \<Rightarrow> True | Some t \<Rightarrow> t = [])"

text \<open>
  \<^verbatim>\<open>exports.login\<close> of Neuron-Core/testproject/src/controllers/authController.js.
  \<^verbatim>\<open>res.json\<close> without \<^verbatim>\<open>res.status\<close> answers with the status 200.
\<close>

definition login_core :: "LoginEnv \<Rightarrow> LoginBody \<Rightarrow> Response" where
  "login_core env req =
     (if missing (email req) \<or> missing (password req)
      then \<lparr>http_status = 400, body = Message ''Email and password are required.''\<rparr>
      else
        (case findOne env (email req) of
           Throws \<Rightarrow> \<lparr>http_status = 500, body = Message ''Server error''\<rparr>
         | Returns None \<Rightarrow>
             \<lparr>http_status = 401,
              body = Message ''Unauthorized - user not found or password incorrect''\<rparr>
         | Returns (Some user) \<Rightarrow>
             (case comparePassword env user (password req) of
                Throws \<Rightarrow> \<lparr>http_status = 500, body = Message ''Server error''\<rparr>
              | Returns isMatch \<Rightarrow>
                  if \<not> isMatch
                  then \<lparr>http_status = 401,
                        body = Message ''Unauthorized - user not found or password incorrect''\<rparr>
                  else
                    (case jwt_sign env [(''id'', user_id user)] of
                       Throws \<Rightarrow> \<lparr>http_status = 500, body = Message ''Server error''\<rparr>
                     | Returns token \<Rightarrow>
                         \<lparr>http_status = 200,
                          body = TokenAndUser token (user_id user) (user_email user)\<rparr>))))"

text \<open>
  \<^verbatim>\<open>exports.login\<close> of testproject/src/controllers/authController.js. The password is
  compared only when a user was found (\<^verbatim>\<open>!user || !(await user.comparePassword(password))\<close>).
\<close>

definition login_testproject :: "LoginEnv \<Rightarrow> LoginBody \<Rightarrow> Response" where
  "login_testproject env req =
     (case findOne env (email req) of
        Throws \<Rightarrow> \<lparr>http_status = 500, body = Message ''Internal server error''\<rparr>
      | Returns None \<Rightarrow> \<lparr>http_status = 400, body = Message ''Invalid email or password''\<rparr>
      | Returns (Some user) \<Rightarrow>
          (case comparePassword env user (password req) of
             Throws \<Rightarrow> \<lparr>http_status = 500, body = Message ''Internal server error''\<rparr>
           | Returns isMatch \<Rightarrow>
               if \<not> isMatch
               then \<lparr>http_status = 400, body = Message ''Invalid email or password''\<rparr>
               else
                 (case jwt_sign env [(''id'', user_id user), (''email'', user_email user)] of
                    Throws \<Rightarrow> \<lparr>http_status = 500, body = Message ''Internal server error''\<rparr>
                  | Returns token \<Rightarrow>
                      \<lparr>http_status = 200,
                       body = TokenAndUser token (user_id user) (user_email user)\<rparr>)))"

text \<open>A response carries a token when its body is the token with the user.\<close>

definition issuesToken :: "Response \<Rightarrow> bool" where
  "issuesToken r = (case body r of Message m \<Rightarrow> False | TokenAndUser t i e \<Rightarrow> True)"

text \<open>
  An environment for examples: one stored user, a comparison that succeeds on the
  password \<open>secret1\<close> and throws on an absent password, and a signer that succeeds.
\<close>

definition demoUser :: User where
  "demoUser = \<lparr>user_id = ''u1'', user_email = ''ada@example.com'', user_password = ''$2b$hash''\<rparr>"

definition demoEnv :: LoginEnv where
  "demoEnv =
     \<lparr> findOne = (\<lambda>e. if e = Some ''ada@example.com'' then Returns (Some demoUser)
                      else Returns None),
       comparePassword = (\<lambda>u p. case p of None \<Rightarrow> Throws
                                 | Some pw \<Rightarrow> Returns (pw = ''secret1'')),
       jwt_sign = (\<lambda>payload. Returns ''header.payload.signature'') \<rparr>"

section \<open>Properties of the stage mapper\<close>

lemma length_stages: "length stages = 6"
  by (simp add: stages_def)

lemma stageIndex_range: "- 1 \<le> stageIndex s \<and> stageIndex s \<le> 5"
  by (cases s) (simp_all add: stageIndex_def findIndex_def stages_def)

text \<open>
  Claim C1. Each of the six statuses of the ordered stage list is mapped by
  \<open>stageIndex\<close> to its zero-based position in that list (0 to 5), and the status
  \<open>failed\<close> is mapped to \<open>-1\<close>. The mapper is a function of the status alone.
\<close>

theorem stageIndex_positions:
  "stageIndex Received = 0 \<and> stageIndex Analyzing = 1 \<and> stageIndex Implementing = 2 \<and>
   stageIndex Patching = 3 \<and> stageIndex Verifying = 4 \<and> stageIndex Completed = 5 \<and>
   stageIndex TaskFailed = - 1 \<and>
   map (\<lambda>s. stageIndex (stage_status s)) stages = [0, 1, 2, 3, 4, 5]"
  by (simp add: stageIndex_def findIndex_def stages_def)

text \<open>
  Claim C5. The fill percentage is \<open>max 0 (currentIndex / (numStages - 1) * 100)\<close> with
  \<open>numStages = 6\<close>; for every task status it lies between 0 and 100; and a status with a
  stage index at least as large never has a smaller fill percentage.
\<close>

theorem progressFill_bounded_monotone:
  "progressFill i = max 0 (real_of_int i / (6 - 1) * 100) \<and>
   0 \<le> progressFill (stageIndex s) \<and> progressFill (stageIndex s) \<le> 100 \<and>
   (stageIndex s \<le> stageIndex t \<longrightarrow>
      progressFill (stageIndex s) \<le> progressFill (stageIndex t))"
proof -
  have fill: "progressFill k = max 0 (real_of_int k * 20)" for k
    by (simp add: progressFill_def length_stages)
  have upper: "progressFill (stageIndex s) \<le> 100"
    using stageIndex_range [of s] by (simp add: fill)
  have mono: "progressFill j \<le> progressFill k" if "j \<le> k" for j k
    using that by (simp add: fill max_def)
  show ?thesis
    using upper mono by (simp add: fill)
qed

theorem progressFill_bounded_monotone_witness:
  "stageIndex Analyzing \<le> stageIndex Verifying \<and>
   progressFill (stageIndex Analyzing) = 20 \<and>
   progressFill (stageIndex Verifying) = 80 \<and>
   progressFill (stageIndex Analyzing) \<le> progressFill (stageIndex Verifying)"
  using progressFill_bounded_monotone [of "stageIndex Analyzing" Analyzing Verifying]
    progressFill_bounded_monotone [of "stageIndex Verifying" Analyzing Verifying]
  by (simp add: stageIndex_def findIndex_def stages_def)

section \<open>Properties of the agent controls\<close>

lemma toggle_twice_agent:
  "(if agent_id (if agent_id a = aid then a\<lparr>enabled := \<not> enabled a\<rparr> else a) = aid
    then (if agent_id a = aid then a\<lparr>enabled := \<not> enabled a\<rparr> else a)
           \<lparr>enabled := \<not> enabled (if agent_id a = aid then a\<lparr>enabled := \<not> enabled a\<rparr> else a)\<rparr>
    else (if agent_id a = aid then a\<lparr>enabled := \<not> enabled a\<rparr> else a)) = (a::Agent)"
  by simp

text \<open>
  Claim C6. \<open>toggleAgentEnabled id\<close> keeps the length and the order of the agents list;
  at every position an agent whose id matches has its \<open>enabled\<close> flag negated and is
  otherwise the same, and an agent whose id differs is untouched. Applied twice, it
  gives back the original list. The operation acts on the local list only.
\<close>

theorem toggleAgentEnabled_flips_and_is_involution:
  "length (toggleAgentEnabled aid ags) = length ags \<and>
   (\<forall>i < length ags.
      (agent_id (ags ! i) = aid \<longrightarrow>
         toggleAgentEnabled aid ags ! i = (ags ! i)\<lparr>enabled := \<not> enabled (ags ! i)\<rparr>) \<and>
      (agent_id (ags ! i) \<noteq> aid \<longrightarrow> toggleAgentEnabled aid ags ! i = ags ! i)) \<and>
   toggleAgentEnabled aid (toggleAgentEnabled aid ags) = ags"
proof -
  have twice: "toggleAgentEnabled aid (toggleAgentEnabled aid ags) = ags"
    unfolding toggleAgentEnabled_def map_map comp_def toggle_twice_agent by simp
  show ?thesis
    using twice by (simp add: toggleAgentEnabled_def)
qed

theorem toggleAgentEnabled_flips_and_is_involution_witness:
  "agent_id (mockAgents ! 1) = ''2'' \<and> enabled (mockAgents ! 1) \<and>
   \<not> enabled (toggleAgentEnabled ''2'' mockAgents ! 1) \<and>
   toggleAgentEnabled ''2'' mockAgents ! 1 = (mockAgents ! 1)\<lparr>enabled := False\<rparr> \<and>
   toggleAgentEnabled ''2'' mockAgents ! 0 = mockAgents ! 0 \<and>
   toggleAgentEnabled ''2'' (toggleAgentEnabled ''2'' mockAgents) = mockAgents"
proof -
  note t = toggleAgentEnabled_flips_and_is_involution [of "''2''" mockAgents]
  have len: "length mockAgents = 6" and id0: "agent_id (mockAgents ! 0) = ''1''"
    and id1: "agent_id (mockAgents ! 1) = ''2''" and en1: "enabled (mockAgents ! 1)"
    by (simp_all add: mockAgents_def)
  from t have at1: "toggleAgentEnabled ''2'' mockAgents ! 1
      = (mockAgents ! 1)\<lparr>enabled := \<not> enabled (mockAgents ! 1)\<rparr>"
    using len id1 by simp
  from t have at0: "toggleAgentEnabled ''2'' mockAgents ! 0 = mockAgents ! 0"
    using len id0 by simp
  from t have twice: "toggleAgentEnabled ''2'' (toggleAgentEnabled ''2'' mockAgents) = mockAgents"
    by simp
  show ?thesis
    using at1 at0 twice id1 en1 by simp
qed

text \<open>
  Claim C7. If the agent at some position of the list has the given id and the status
  \<open>failed\<close>, then after \<open>retryAgent id\<close> the agent at that position has the status
  \<open>working\<close> and the current action \<open>Retrying...\<close>. The operation acts on the local
  list only.
\<close>

theorem retryAgent_failed_becomes_working:
  assumes "i < length ags"
    and "agent_id (ags ! i) = aid"
    and "status (ags ! i) = Failed"
  shows "status (retryAgent aid ags ! i) = Working \<and>
         currentAction (retryAgent aid ags ! i) = ''Retrying...'' \<and>
         agent_id (retryAgent aid ags ! i) = aid"
  using assms by (simp add: retryAgent_def)

theorem retryAgent_failed_becomes_working_witness:
  "status (agentsWithFailure ! 1) = Failed \<and>
   status (retryAgent ''6'' agentsWithFailure ! 1) = Working \<and>
   currentAction (retryAgent ''6'' agentsWithFailure ! 1) = ''Retrying...''"
proof -
  have h: "1 < length agentsWithFailure" "agent_id (agentsWithFailure ! 1) = ''6''"
    "status (agentsWithFailure ! 1) = Failed"
    by (simp_all add: agentsWithFailure_def)
  show ?thesis
    using retryAgent_failed_becomes_working [OF h] h(3) by simp
qed

text \<open>
  Claim C10. If every agent of the list that has the given id has a status other than
  \<open>failed\<close> (in particular if no agent has that id), \<open>retryAgent id\<close> returns the list
  unchanged. In every case the list keeps its length; at every position the fields other
  than \<open>status\<close> and \<open>currentAction\<close> are kept, and an agent that does not have both the
  given id and the status \<open>failed\<close> is kept whole.
\<close>

theorem retryAgent_frame:
  "((\<forall>a \<in> set ags. agent_id a = aid \<longrightarrow> status a \<noteq> Failed) \<longrightarrow>
      retryAgent aid ags = ags) \<and>
   length (retryAgent aid ags) = length ags \<and>
   (\<forall>i < length ags.
      agent_id (retryAgent aid ags ! i) = agent_id (ags ! i) \<and>
      agent_name (retryAgent aid ags ! i) = agent_name (ags ! i) \<and>
      agent_type (retryAgent aid ags ! i) = agent_type (ags ! i) \<and>
      lastResponseTime (retryAgent aid ags ! i) = lastResponseTime (ags ! i) \<and>
      tokenUsage (retryAgent aid ags ! i) = tokenUsage (ags ! i) \<and>
      enabled (retryAgent aid ags ! i) = enabled (ags ! i) \<and>
      (\<not> (agent_id (ags ! i) = aid \<and> status (ags ! i) = Failed) \<longrightarrow>
         retryAgent aid ags ! i = ags ! i))"
proof -
  have same: "retryAgent aid ags = ags"
    if "\<forall>a \<in> set ags. agent_id a = aid \<longrightarrow> status a \<noteq> Failed"
  proof -
    have "map (\<lambda>agent. if agent_id agent = aid \<and> status agent = Failed
                        then agent\<lparr>status := Working, currentAction := ''Retrying...''\<rparr>
                        else agent) ags = map (\<lambda>agent. agent) ags"
      by (rule map_cong) (use that in auto)
    then show ?thesis by (simp add: retryAgent_def)
  qed
  show ?thesis
    using same by (simp add: retryAgent_def)
qed

theorem retryAgent_frame_witness:
  "retryAgent ''1'' agentsWithFailure = agentsWithFailure \<and>
   retryAgent ''7'' agentsWithFailure = agentsWithFailure \<and>
   retryAgent ''6'' agentsWithFailure ! 2 = agentsWithFailure ! 2 \<and>
   status (agentsWithFailure ! 1) = Failed \<and>
   agent_name (retryAgent ''6'' agentsWithFailure ! 1) = ''Verifier'' \<and>
   tokenUsage (retryAgent ''6'' agentsWithFailure ! 1) = 310 \<and>
   \<not> enabled (retryAgent ''6'' agentsWithFailure ! 1)"
proof -
  have not_failed_1:
    "\<forall>a \<in> set agentsWithFailure. agent_id a = ''1'' \<longrightarrow> status a \<noteq> Failed"
    by (simp add: agentsWithFailure_def)
  have absent_7:
    "\<forall>a \<in> set agentsWithFailure. agent_id a = ''7'' \<longrightarrow> status a \<noteq> Failed"
    by (simp add: agentsWithFailure_def)
  have one: "retryAgent ''1'' agentsWithFailure = agentsWithFailure"
    using retryAgent_frame [of agentsWithFailure "''1''"] not_failed_1 by blast
  have seven: "retryAgent ''7'' agentsWithFailure = agentsWithFailure"
    using retryAgent_frame [of agentsWithFailure "''7''"] absent_7 by blast
  have six: "i < length agentsWithFailure \<Longrightarrow>
      agent_name (retryAgent ''6'' agentsWithFailure ! i) = agent_name (agentsWithFailure ! i) \<and>
      tokenUsage (retryAgent ''6'' agentsWithFailure ! i) = tokenUsage (agentsWithFailure ! i) \<and>
      enabled (retryAgent ''6'' agentsWithFailure ! i) = enabled (agentsWithFailure ! i) \<and>
      (\<not> (agent_id (agentsWithFailure ! i) = ''6'' \<and> status (agentsWithFailure ! i) = Failed) \<longrightarrow>
         retryAgent ''6'' agentsWithFailure ! i = agentsWithFailure ! i)" for i
    using retryAgent_frame [of agentsWithFailure "''6''"] by blast
  have at2: "retryAgent ''6'' agentsWithFailure ! 2 = agentsWithFailure ! 2"
    using six [of 2] by (simp add: agentsWithFailure_def)
  have at1: "agent_name (retryAgent ''6'' agentsWithFailure ! 1) = ''Verifier'' \<and>
    tokenUsage (retryAgent ''6'' agentsWithFailure ! 1) = 310 \<and>
    \<not> enabled (retryAgent ''6'' agentsWithFailure ! 1)"
    using six [of 1] by (simp add: agentsWithFailure_def)
  have failed_1: "status (agentsWithFailure ! 1) = Failed"
    by (simp add: agentsWithFailure_def)
  show ?thesis
    using one seven at2 at1 failed_1 by simp
qed

section \<open>Properties of the log filter\<close>

text \<open>
  Claim C8. Filtering by the severity \<open>error\<close> returns exactly the entries whose severity
  is \<open>error\<close>, in their original order (a subsequence of the list with exactly those
  members); filtering by \<open>all\<close> returns the list itself. The result is a function of the
  filter and the list alone.
\<close>

theorem filteredLogs_error_and_all:
  "filteredLogs (FilterSeverity Error) logs = filter (\<lambda>l. severity l = Error) logs \<and>
   subseq (filteredLogs (FilterSeverity Error) logs) logs \<and>
   set (filteredLogs (FilterSeverity Error) logs) = {l. l \<in> set logs \<and> severity l = Error} \<and>
   filteredLogs FilterAll logs = logs"
  by (auto simp add: filteredLogs_def)

section \<open>Properties of the remote state fetcher\<close>

lemma fetchState_applied:
  assumes "stateRes poll = Resolved ok1 (Some sd)"
    and "sd_status sd = JStr ''success''"
    and "agentsRes poll = Resolved ok2 (Some ad)"
    and "projectsRes poll = Resolved ok3 (Some pd)"
  shows "fetchState poll prev = applyPoll sd ad pd (healthRes poll) prev"
  using assms by (simp add: fetchState_def fetchStateTry_def awaitAll_def)

lemma map_toActivity_enumerate:
  "map request (map (\<lambda>(i, f). toActivity i f) (enumerate n fs)) = map feature fs"
  "map filesChanged (map (\<lambda>(i, f). toActivity i f) (enumerate n fs))
     = map (\<lambda>f. case files f of None \<Rightarrow> 0 | Some fl \<Rightarrow> length fl) fs"
  "map act_agents (map (\<lambda>(i, f). toActivity i f) (enumerate n fs))
     = map (\<lambda>f. [''Orchestrator'']) fs"
  "map safetyChecks (map (\<lambda>(i, f). toActivity i f) (enumerate n fs))
     = map (\<lambda>f. [''Verified'']) fs"
  "map act_id (map (\<lambda>(i, f). toActivity i f) (enumerate n fs)) = [n..<n + length fs]"
  by (induction fs arbitrary: n) (simp_all add: toActivity_def upt_rec)

lemma buildActivities_Some:
  "map g (buildActivities (Some fs))
     = rev (map g (map (\<lambda>(i, f). toActivity i f) (enumerate 0 fs)))"
  by (simp only: buildActivities_def option.case rev_map)

lemma buildActivities_fields:
  "map request (buildActivities (Some fs)) = rev (map feature fs)"
  "map filesChanged (buildActivities (Some fs))
     = rev (map (\<lambda>f. case files f of None \<Rightarrow> 0 | Some fl \<Rightarrow> length fl) fs)"
  "map act_agents (buildActivities (Some fs)) = rev (map (\<lambda>f. [''Orchestrator'']) fs)"
  "map safetyChecks (buildActivities (Some fs)) = rev (map (\<lambda>f. [''Verified'']) fs)"
  "map act_id (buildActivities (Some fs)) = rev [0..<length fs]"
  by (simp_all only: buildActivities_Some map_toActivity_enumerate add_0)


text \<open>
  Claim C4. When the poll is applied (the dashboard-state response has the status
  \<open>success\<close> and the two other bodies are obtained), the activities list is the features
  list mapped to display records and reversed (empty when \<open>features\<close> is absent): its
  requests are the feature names in reverse order, each \<open>filesChanged\<close> is the length
  of the feature's \<open>files\<close> array and 0 when \<open>files\<close> is absent, and every record has the
  agents \<open>[Orchestrator]\<close> and the safety checks \<open>[Verified]\<close>. For the single feature
  \<open>Add auth\<close> with the files \<open>a.ts\<close> and \<open>b.ts\<close>, the list has exactly one entry, with
  \<open>filesChanged = 2\<close>.
\<close>

theorem fetchState_activities_from_features:
  assumes "stateRes poll = Resolved ok1 (Some sd)"
    and "sd_status sd = JStr ''success''"
    and "agentsRes poll = Resolved ok2 (Some ad)"
    and "projectsRes poll = Resolved ok3 (Some pd)"
  shows "(sd_features sd = None \<longrightarrow> activities (fetchState poll prev) = []) \<and>
    (\<forall>fs. sd_features sd = Some fs \<longrightarrow>
       activities (fetchState poll prev)
         = rev (map (\<lambda>(i, f). toActivity i f) (enumerate 0 fs)) \<and>
       length (activities (fetchState poll prev)) = length fs \<and>
       map request (activities (fetchState poll prev)) = rev (map feature fs) \<and>
       map filesChanged (activities (fetchState poll prev))
         = rev (map (\<lambda>f. case files f of None \<Rightarrow> 0 | Some fl \<Rightarrow> length fl) fs) \<and>
       map act_agents (activities (fetchState poll prev))
         = rev (map (\<lambda>f. [''Orchestrator'']) fs) \<and>
       map safetyChecks (activities (fetchState poll prev))
         = rev (map (\<lambda>f. [''Verified'']) fs)) \<and>
    (sd_features sd = Some [\<lparr>feature = ''Add auth'', files = Some [''a.ts'', ''b.ts''],
                             timestamp = Some ''2m ago''\<rparr>] \<longrightarrow>
       (\<exists>a. activities (fetchState poll prev) = [a] \<and> filesChanged a = 2 \<and>
            act_agents a = [''Orchestrator''] \<and> safetyChecks a = [''Verified'']))"
proof -
  have acts: "activities (fetchState poll prev) = buildActivities (sd_features sd)"
    by (simp add: fetchState_applied [OF assms] applyPoll_def Let_def)
  have absent: "buildActivities None = []"
    by (simp add: buildActivities_def)
  have len: "length (buildActivities (Some fs)) = length fs" for fs
    by (simp add: buildActivities_def)
  have unfolded: "buildActivities (Some fs)
      = rev (map (\<lambda>(i, f). toActivity i f) (enumerate 0 fs))" for fs
    by (simp add: buildActivities_def)
  have example: "\<exists>a. buildActivities
        (Some [\<lparr>feature = ''Add auth'', files = Some [''a.ts'', ''b.ts''],
                timestamp = Some ''2m ago''\<rparr>]) = [a] \<and>
      filesChanged a = 2 \<and> act_agents a = [''Orchestrator''] \<and>
      safetyChecks a = [''Verified'']"
    by (simp add: buildActivities_def toActivity_def)
  show ?thesis
    unfolding acts
    using absent len unfolded example buildActivities_fields(1-4) by simp
qed

theorem fetchState_activities_from_features_witness:
  "activities (fetchState pollAllUp initialData) =
     [\<lparr>act_id = 0, request = ''Add auth'', act_status = ''success'', filesChanged = 2,
       duration = ''N/A'', act_timestamp = ''2m ago'', act_agents = [''Orchestrator''],
       act_files = [''a.ts'', ''b.ts''], safetyChecks = [''Verified'']\<rparr>] \<and>
   map filesChanged (activities (fetchState pollAllUp initialData)) = [2]"
proof -
  have h: "stateRes pollAllUp = Resolved True (Some exampleState)"
    "sd_status exampleState = JStr ''success''"
    "agentsRes pollAllUp = Resolved True (Some exampleAgents)"
    "projectsRes pollAllUp = Resolved True (Some exampleProjects)"
    by (simp_all add: pollAllUp_def exampleState_def)
  have fs: "sd_features exampleState =
      Some [\<lparr>feature = ''Add auth'', files = Some [''a.ts'', ''b.ts''],
             timestamp = Some ''2m ago''\<rparr>]"
    by (simp add: exampleState_def)
  show ?thesis
    using fetchState_activities_from_features [OF h, of initialData]
    by (simp add: fs toActivity_def)
qed


text \<open>
  Claim C3. If the health request fails (it rejects or its response is not ok) while the
  dashboard-state response has the status \<open>success\<close> and the two other bodies are
  obtained, the next view model has \<open>systemStatus = offline\<close> and every other field updated
  from the responses; it is the view model a poll with a healthy backend would give, except
  for \<open>systemStatus\<close>. The health failure does not discard the update.
\<close>

theorem fetchState_health_failure_only_offline:
  assumes "stateRes poll = Resolved ok1 (Some sd)"
    and "sd_status sd = JStr ''success''"
    and "agentsRes poll = Resolved ok2 (Some ad)"
    and "projectsRes poll = Resolved ok3 (Some pd)"
    and "\<not> healthOk (healthRes poll)"
  shows "systemStatus (fetchState poll prev) = ''offline'' \<and>
    hasProject (fetchState poll prev) = has_project sd \<and>
    project (fetchState poll prev) = sd_project sd \<and>
    projects (fetchState poll prev) = orElse (pd_data pd) (JArr []) \<and>
    metrics (fetchState poll prev) = orElse (sd_metrics sd) (metrics prev) \<and>
    activities (fetchState poll prev) = buildActivities (sd_features sd) \<and>
    agents (fetchState poll prev) = orElse (ad_agents ad) (agents prev) \<and>
    lastAction (fetchState poll prev)
      = (case buildActivities (sd_features sd) of [] \<Rightarrow> ''Never''
         | a # rest \<Rightarrow> act_timestamp a) \<and>
    fetchState poll prev
      = (fetchState (poll\<lparr>healthRes := Resolved True None\<rparr>) prev)
          \<lparr>systemStatus := ''offline''\<rparr>"
proof -
  have down: "fetchState poll prev = applyPoll sd ad pd (healthRes poll) prev"
    by (rule fetchState_applied) (use assms in simp_all)
  have up: "fetchState (poll\<lparr>healthRes := Resolved True None\<rparr>) prev
      = applyPoll sd ad pd (Resolved True None) prev"
    using fetchState_applied [of "poll\<lparr>healthRes := Resolved True None\<rparr>" ok1 sd ok2 ad ok3 pd prev]
      assms(1-4) by simp
  show ?thesis
    unfolding down up using assms(5) by (simp add: applyPoll_def Let_def)
qed

theorem fetchState_health_failure_only_offline_witness:
  "\<not> healthOk (healthRes pollHealthDown) \<and>
   systemStatus (fetchState pollHealthDown (initialData\<lparr>systemStatus := ''online''\<rparr>))
     = ''offline'' \<and>
   project (fetchState pollHealthDown (initialData\<lparr>systemStatus := ''online''\<rparr>))
     = JObj [(''name'', JStr ''demo''), (''path'', JStr ''/srv/demo'')] \<and>
   lastAction (fetchState pollHealthDown (initialData\<lparr>systemStatus := ''online''\<rparr>))
     = ''2m ago'' \<and>
   agents (fetchState pollHealthDown (initialData\<lparr>systemStatus := ''online''\<rparr>))
     = ad_agents exampleAgents"
proof -
  have h: "stateRes pollHealthDown = Resolved True (Some exampleState)"
    "sd_status exampleState = JStr ''success''"
    "agentsRes pollHealthDown = Resolved True (Some exampleAgents)"
    "projectsRes pollHealthDown = Resolved True (Some exampleProjects)"
    "\<not> healthOk (healthRes pollHealthDown)"
    by (simp_all add: pollHealthDown_def pollAllUp_def exampleState_def healthOk_def)
  have ex: "sd_project exampleState = JObj [(''name'', JStr ''demo''), (''path'', JStr ''/srv/demo'')]"
    "buildActivities (sd_features exampleState) =
       [\<lparr>act_id = 0, request = ''Add auth'', act_status = ''success'', filesChanged = 2,
         duration = ''N/A'', act_timestamp = ''2m ago'', act_agents = [''Orchestrator''],
         act_files = [''a.ts'', ''b.ts''], safetyChecks = [''Verified'']\<rparr>]"
    "orElse (ad_agents exampleAgents) (agents initialData) = ad_agents exampleAgents"
    by (simp_all add: exampleState_def exampleAgents_def buildActivities_def toActivity_def
        orElse_def)
  define after where "after = fetchState pollHealthDown (initialData\<lparr>systemStatus := ''online''\<rparr>)"
  note t = fetchState_health_failure_only_offline
      [OF h, of "initialData\<lparr>systemStatus := ''online''\<rparr>", folded after_def]
  from t have parts: "systemStatus after = ''offline''"
    "project after = sd_project exampleState"
    "lastAction after = (case buildActivities (sd_features exampleState) of
        [] \<Rightarrow> ''Never'' | a # rest \<Rightarrow> act_timestamp a)"
    "agents after = orElse (ad_agents exampleAgents)
        (agents (initialData\<lparr>systemStatus := ''online''\<rparr>))"
    by blast+
  show ?thesis
    unfolding after_def [symmetric] using parts h(5) by (simp add: ex)
qed

text \<open>
  Claim C2, as stated, fails: with the health request rejected and the three other
  requests successful, the poll is not fully successful, yet the view model is updated
  (here the activities and the project change).
\<close>

theorem fetchState_health_failure_updates_view:
  "healthRes pollHealthDown = Rejected \<and>
   fetchState pollHealthDown initialData \<noteq> initialData \<and>
   activities (fetchState pollHealthDown initialData) \<noteq> activities initialData \<and>
   project (fetchState pollHealthDown initialData) \<noteq> project initialData"
  by (simp add: pollHealthDown_def pollAllUp_def exampleState_def fetchState_def
      fetchStateTry_def awaitAll_def applyPoll_def Let_def buildActivities_def
      toActivity_def initialData_def)

text \<open>
  Claim C2, amended. If the dashboard-state response has a status other than \<open>success\<close>,
  or one of the three requests for the dashboard state, the agent status and the project
  list fails (its promise rejects or its body is not JSON), the view model after the poll
  is the previous one, in all its fields.
\<close>

theorem fetchState_failure_keeps_view:
  assumes "requestFailed (stateRes poll) \<or> requestFailed (agentsRes poll) \<or>
      requestFailed (projectsRes poll) \<or>
      (\<exists>ok sd. stateRes poll = Resolved ok (Some sd) \<and> sd_status sd \<noteq> JStr ''success'')"
  shows "fetchState poll prev = prev"
  using assms
  by (auto simp add: fetchState_def fetchStateTry_def awaitAll_def requestFailed_def
      split: Fetched.splits option.splits sum.splits prod.splits)

theorem fetchState_failure_keeps_view_witness:
  "fetchState (pollAllUp\<lparr>agentsRes := Rejected\<rparr>) (fetchState pollAllUp initialData)
     = fetchState pollAllUp initialData \<and>
   fetchState (pollAllUp\<lparr>projectsRes := Resolved True None\<rparr>) (fetchState pollAllUp initialData)
     = fetchState pollAllUp initialData \<and>
   fetchState (pollAllUp\<lparr>stateRes := Resolved True (Some (exampleState\<lparr>sd_status := JStr ''error''\<rparr>))\<rparr>)
       (fetchState pollAllUp initialData)
     = fetchState pollAllUp initialData \<and>
   fetchState pollAllUp initialData \<noteq> initialData"
proof -
  have a: "requestFailed (agentsRes (pollAllUp\<lparr>agentsRes := Rejected\<rparr>))"
    by (simp add: requestFailed_def)
  have p: "requestFailed (projectsRes (pollAllUp\<lparr>projectsRes := Resolved True None\<rparr>))"
    by (simp add: requestFailed_def)
  have s: "\<exists>ok sd.
      stateRes (pollAllUp\<lparr>stateRes := Resolved True (Some (exampleState\<lparr>sd_status := JStr ''error''\<rparr>))\<rparr>)
        = Resolved ok (Some sd) \<and> sd_status sd \<noteq> JStr ''success''"
    by (auto simp add: exampleState_def)
  have changed: "fetchState pollAllUp initialData \<noteq> initialData"
    by (simp add: pollAllUp_def exampleState_def fetchState_def
      fetchStateTry_def awaitAll_def applyPoll_def Let_def buildActivities_def
      toActivity_def initialData_def)
  show ?thesis
    using fetchState_failure_keeps_view [of "pollAllUp\<lparr>agentsRes := Rejected\<rparr>"]
      fetchState_failure_keeps_view [of "pollAllUp\<lparr>projectsRes := Resolved True None\<rparr>"]
      fetchState_failure_keeps_view
        [of "pollAllUp\<lparr>stateRes := Resolved True (Some (exampleState\<lparr>sd_status := JStr ''error''\<rparr>))\<rparr>"]
      a p s changed
    by blast
qed

section \<open>Properties of the login handlers\<close>

lemma login_core_cases:
  "(issuesToken (login_core env req) \<longleftrightarrow>
      \<not> missing (email req) \<and> \<not> missing (password req) \<and>
      (\<exists>u t. findOne env (email req) = Returns (Some u) \<and>
             comparePassword env u (password req) = Returns True \<and>
             jwt_sign env [(''id'', user_id u)] = Returns t \<and>
             login_core env req
               = \<lparr>http_status = 200, body = TokenAndUser t (user_id u) (user_email u)\<rparr>))"
  "\<not> issuesToken (login_core env req) \<Longrightarrow>
     http_status (login_core env req) \<in> {400, 401, 500} \<and>
     (\<exists>m. body (login_core env req) = Message m)"
  "missing (email req) \<or> missing (password req) \<Longrightarrow> http_status (login_core env req) = 400"
  "\<not> missing (email req) \<Longrightarrow> \<not> missing (password req) \<Longrightarrow>
     findOne env (email req) = Returns None \<or>
     (\<exists>u. findOne env (email req) = Returns (Some u) \<and>
          comparePassword env u (password req) = Returns False) \<Longrightarrow>
     http_status (login_core env req) = 401"
  "\<not> missing (email req) \<Longrightarrow> \<not> missing (password req) \<Longrightarrow>
     findOne env (email req) = Throws \<or>
     (\<exists>u. findOne env (email req) = Returns (Some u) \<and>
          (comparePassword env u (password req) = Throws \<or>
           comparePassword env u (password req) = Returns True \<and>
           jwt_sign env [(''id'', user_id u)] = Throws)) \<Longrightarrow>
     http_status (login_core env req) = 500"
  by (auto simp add: login_core_def issuesToken_def
      split: Outcome.splits option.splits if_splits)

lemma login_testproject_cases:
  "(issuesToken (login_testproject env req) \<longleftrightarrow>
      (\<exists>u t. findOne env (email req) = Returns (Some u) \<and>
             comparePassword env u (password req) = Returns True \<and>
             jwt_sign env [(''id'', user_id u), (''email'', user_email u)] = Returns t \<and>
             login_testproject env req
               = \<lparr>http_status = 200, body = TokenAndUser t (user_id u) (user_email u)\<rparr>))"
  "\<not> issuesToken (login_testproject env req) \<Longrightarrow>
     http_status (login_testproject env req) \<in> {400, 500} \<and>
     (\<exists>m. body (login_testproject env req) = Message m)"
  "findOne env (email req) = Returns None \<or>
     (\<exists>u. findOne env (email req) = Returns (Some u) \<and>
          comparePassword env u (password req) = Returns False) \<Longrightarrow>
     http_status (login_testproject env req) = 400"
  "findOne env (email req) = Throws \<or>
     (\<exists>u. findOne env (email req) = Returns (Some u) \<and>
          (comparePassword env u (password req) = Throws \<or>
           comparePassword env u (password req) = Returns True \<and>
           jwt_sign env [(''id'', user_id u), (''email'', user_email u)] = Throws)) \<Longrightarrow>
     http_status (login_testproject env req) = 500"
  by (auto simp add: login_testproject_def issuesToken_def
      split: Outcome.splits option.splits if_splits)


text \<open>
  Claim C9, as stated, fails. The handler of testproject answers an unknown user and a
  wrong password with the status 400, not 401. And in both handlers an existing user with
  a matching password gets no token when the token signing throws: the answer is 500.
\<close>

theorem login_unknown_user_400_and_signing_failure:
  "findOne demoEnv (Some ''bob@example.com'') = Returns None \<and>
   http_status (login_testproject demoEnv
      \<lparr>email = Some ''bob@example.com'', password = Some ''secret1''\<rparr>) = 400 \<and>
   http_status (login_testproject demoEnv
      \<lparr>email = Some ''bob@example.com'', password = Some ''secret1''\<rparr>) \<noteq> 401 \<and>
   findOne demoEnv (Some ''ada@example.com'') = Returns (Some demoUser) \<and>
   comparePassword demoEnv demoUser (Some ''wrong-pw'') = Returns False \<and>
   http_status (login_testproject demoEnv
      \<lparr>email = Some ''ada@example.com'', password = Some ''wrong-pw''\<rparr>) = 400 \<and>
   comparePassword (demoEnv\<lparr>jwt_sign := \<lambda>payload. Throws\<rparr>) demoUser (Some ''secret1'')
     = Returns True \<and>
   login_core (demoEnv\<lparr>jwt_sign := \<lambda>payload. Throws\<rparr>)
      \<lparr>email = Some ''ada@example.com'', password = Some ''secret1''\<rparr>
     = \<lparr>http_status = 500, body = Message ''Server error''\<rparr> \<and>
   \<not> issuesToken (login_core (demoEnv\<lparr>jwt_sign := \<lambda>payload. Throws\<rparr>)
      \<lparr>email = Some ''ada@example.com'', password = Some ''secret1''\<rparr>)"
  by (simp add: demoEnv_def login_testproject_def login_core_def missing_def issuesToken_def)

text \<open>
  Claim C9, amended. Each handler answers with the token and the user (id and email,
  status 200) exactly when the lookup returns a user, the comparison of the password
  returns true and the signing of the token succeeds (for the Neuron-Core handler, also
  email and password are present and not empty). In every other case the answer is a
  message without a token. The Neuron-Core handler then answers 400 for a missing email
  or password, 401 for an unknown user or a wrong password, and 500 when the lookup, the
  comparison or the signing throws. The testproject handler checks no input itself; it
  answers 400 for an unknown user or a wrong password, and 500 when a step throws.
\<close>

theorem login_responses:
  "(issuesToken (login_core env req) \<longleftrightarrow>
      \<not> missing (email req) \<and> \<not> missing (password req) \<and>
      (\<exists>u t. findOne env (email req) = Returns (Some u) \<and>
             comparePassword env u (password req) = Returns True \<and>
             jwt_sign env [(''id'', user_id u)] = Returns t \<and>
             login_core env req
               = \<lparr>http_status = 200, body = TokenAndUser t (user_id u) (user_email u)\<rparr>)) \<and>
   (\<not> issuesToken (login_core env req) \<longrightarrow>
      http_status (login_core env req) \<in> {400, 401, 500} \<and>
      (\<exists>m. body (login_core env req) = Message m)) \<and>
   (missing (email req) \<or> missing (password req) \<longrightarrow>
      http_status (login_core env req) = 400) \<and>
   (\<not> missing (email req) \<and> \<not> missing (password req) \<and>
      (findOne env (email req) = Returns None \<or>
       (\<exists>u. findOne env (email req) = Returns (Some u) \<and>
            comparePassword env u (password req) = Returns False)) \<longrightarrow>
      http_status (login_core env req) = 401) \<and>
   (\<not> missing (email req) \<and> \<not> missing (password req) \<and>
      (findOne env (email req) = Throws \<or>
       (\<exists>u. findOne env (email req) = Returns (Some u) \<and>
            (comparePassword env u (password req) = Throws \<or>
             comparePassword env u (password req) = Returns True \<and>
             jwt_sign env [(''id'', user_id u)] = Throws))) \<longrightarrow>
      http_status (login_core env req) = 500) \<and>
   (issuesToken (login_testproject env req) \<longleftrightarrow>
      (\<exists>u t. findOne env (email req) = Returns (Some u) \<and>
             comparePassword env u (password req) = Returns True \<and>
             jwt_sign env [(''id'', user_id u), (''email'', user_email u)] = Returns t \<and>
             login_testproject env req
               = \<lparr>http_status = 200, body = TokenAndUser t (user_id u) (user_email u)\<rparr>)) \<and>
   (\<not> issuesToken (login_testproject env req) \<longrightarrow>
      http_status (login_testproject env req) \<in> {400, 500} \<and>
      (\<exists>m. body (login_testproject env req) = Message m)) \<and>
   (findOne env (email req) = Returns None \<or>
      (\<exists>u. findOne env (email req) = Returns (Some u) \<and>
           comparePassword env u (password req) = Returns False) \<longrightarrow>
      http_status (login_testproject env req) = 400) \<and>
   (findOne env (email req) = Throws \<or>
      (\<exists>u. findOne env (email req) = Returns (Some u) \<and>
           (comparePassword env u (password req) = Throws \<or>
            comparePassword env u (password req) = Returns True \<and>
            jwt_sign env [(''id'', user_id u), (''email'', user_email u)] = Throws)) \<longrightarrow>
      http_status (login_testproject env req) = 500)"
  using login_core_cases [where env = env and req = req]
    login_testproject_cases [where env = env and req = req]
  by (intro conjI impI; blast)

theorem login_responses_witness:
  "login_core demoEnv \<lparr>email = Some ''ada@example.com'', password = Some ''secret1''\<rparr>
     = \<lparr>http_status = 200,
        body = TokenAndUser ''header.payload.signature'' ''u1'' ''ada@example.com''\<rparr> \<and>
   http_status (login_core demoEnv \<lparr>email = None, password = Some ''secret1''\<rparr>) = 400 \<and>
   http_status (login_core demoEnv
      \<lparr>email = Some ''ada@example.com'', password = Some ''wrong-pw''\<rparr>) = 401 \<and>
   http_status (login_core demoEnv
      \<lparr>email = Some ''bob@example.com'', password = Some ''secret1''\<rparr>) = 401 \<and>
   http_status (login_testproject demoEnv
      \<lparr>email = Some ''bob@example.com'', password = Some ''secret1''\<rparr>) = 400 \<and>
   http_status (login_testproject demoEnv
      \<lparr>email = Some ''ada@example.com'', password = None\<rparr>) = 500 \<and>
   issuesToken (login_testproject demoEnv
      \<lparr>email = Some ''ada@example.com'', password = Some ''secret1''\<rparr>)"
proof -
  have env: "findOne demoEnv (Some ''ada@example.com'') = Returns (Some demoUser)"
    "findOne demoEnv (Some ''bob@example.com'') = Returns None"
    "comparePassword demoEnv demoUser (Some ''secret1'') = Returns True"
    "comparePassword demoEnv demoUser (Some ''wrong-pw'') = Returns False"
    "comparePassword demoEnv demoUser None = Throws"
    "jwt_sign demoEnv p = Returns ''header.payload.signature''"
    "user_id demoUser = ''u1''" "user_email demoUser = ''ada@example.com''" for p
    by (simp_all add: demoEnv_def demoUser_def)
  have present: "\<not> missing (Some ''ada@example.com'')" "\<not> missing (Some ''bob@example.com'')"
    "\<not> missing (Some ''secret1'')" "\<not> missing (Some ''wrong-pw'')" "missing None"
    by (simp_all add: missing_def)
  have ok: "login_core demoEnv \<lparr>email = Some ''ada@example.com'', password = Some ''secret1''\<rparr>
     = \<lparr>http_status = 200,
        body = TokenAndUser ''header.payload.signature'' ''u1'' ''ada@example.com''\<rparr>"
  proof -
    have "issuesToken (login_core demoEnv
        \<lparr>email = Some ''ada@example.com'', password = Some ''secret1''\<rparr>)"
      by (simp add: login_core_def issuesToken_def env present)
    then show ?thesis
      using login_responses
        [where env = demoEnv and req = "\<lparr>email = Some ''ada@example.com'', password = Some ''secret1''\<rparr>"]
      by (auto simp add: env)
  qed
  have no_email: "http_status (login_core demoEnv \<lparr>email = None, password = Some ''secret1''\<rparr>) = 400"
    using login_responses
        [where env = demoEnv and req = "\<lparr>email = None, password = Some ''secret1''\<rparr>"]
    by (simp add: present)
  have wrong: "http_status (login_core demoEnv
      \<lparr>email = Some ''ada@example.com'', password = Some ''wrong-pw''\<rparr>) = 401"
    using login_responses
        [where env = demoEnv and req = "\<lparr>email = Some ''ada@example.com'', password = Some ''wrong-pw''\<rparr>"]
    by (simp add: present env)
  have unknown: "http_status (login_core demoEnv
      \<lparr>email = Some ''bob@example.com'', password = Some ''secret1''\<rparr>) = 401"
    using login_responses
        [where env = demoEnv and req = "\<lparr>email = Some ''bob@example.com'', password = Some ''secret1''\<rparr>"]
    by (simp add: present env)
  have unknown_tp: "http_status (login_testproject demoEnv
      \<lparr>email = Some ''bob@example.com'', password = Some ''secret1''\<rparr>) = 400"
    using login_responses
        [where env = demoEnv and req = "\<lparr>email = Some ''bob@example.com'', password = Some ''secret1''\<rparr>"]
    by (simp add: env)
  have throws_tp: "http_status (login_testproject demoEnv
      \<lparr>email = Some ''ada@example.com'', password = None\<rparr>) = 500"
    using login_responses
        [where env = demoEnv and req = "\<lparr>email = Some ''ada@example.com'', password = None\<rparr>"]
    by (simp add: env)
  have ok_tp: "issuesToken (login_testproject demoEnv
      \<lparr>email = Some ''ada@example.com'', password = Some ''secret1''\<rparr>)"
    by (simp add: login_testproject_def issuesToken_def env)
  show ?thesis
    using ok no_email wrong unknown unknown_tp throws_tp ok_tp by simp
qed

end
